theory Spec2Isabelle
  imports Main "HOL-Library.Word"
begin

section \<open>Data model of the submit command (cmd/submit.go)\<close>

text \<open>
  Strings are Go strings: lists of bytes. An error value returned by a collaborator
  outside this file (the os, path/filepath, workspace and api packages, encoding/json)
  is an \<open>exterr\<close>: its text and the two classifications the command asks about,
  \<open>os.IsNotExist\<close> and \<open>workspace.IsMissingMetadata\<close>.
\<close>

record exterr =
  ErrText :: string
  IsNotExist :: bool
  IsMissingMetadata :: bool

text \<open>
  Every \<open>return\<close> of an error in submit.go is one constructor. \<open>Propagated\<close> is
  \<open>return err\<close> of a collaborator's error as it is; the others are the
  \<open>fmt.Errorf\<close> and \<open>errors.New\<close> sites, carrying the operands of the message.
\<close>

datatype error =
    Propagated exterr
  | NotFoundError string
  | UnsupportedTargetError string string
  | MissingMetadataError string
  | MixedSolutionError
  | SlugMismatchError string string
  | UnlinkedSolutionError string string string
  | FileTooLargeError string "64 word"
  | NoFilesToSubmitError
  | InvalidStateError string
  | ProtocolError exterr
  | ApiError string
  | NilDereference

text \<open>os.FileInfo, as far as the command reads it: \<open>IsDir()\<close> and \<open>Size()\<close> (an int64).\<close>

record fileinfo =
  IsDir :: bool
  Size :: "64 word"

text \<open>
  What reading a stream to its end delivers: the bytes, and the error that ended the
  reading if it was not the end of the stream.
\<close>

record reader =
  Data :: string
  ReadErr :: "exterr option"

record workspace =
  Dir :: string

record exercise =
  Root :: string
  ExTrack :: string
  Slug :: string

record metadata =
  ID :: string
  URL :: string
  Team :: string
  Exercise :: string
  Track :: string
  IsRequester :: bool
  AutoApprove :: bool

text \<open>
  Modelled from the spec: workspace.Document is declared outside src/. A Document is
  "exercise-relative path label, absolute filesystem path"; the two fields hold what the
  accessors \<open>Path()\<close> and \<open>Filepath()\<close> return.
\<close>

record document =
  Path :: string
  Filepath :: string

text \<open>The collaborators of the os and path/filepath packages.\<close>

record fsys =
  Abs :: "string \<Rightarrow> exterr + string"
  Lstat :: "string \<Rightarrow> exterr + fileinfo"
  Stat :: "string \<Rightarrow> exterr + fileinfo"
  EvalSymlinks :: "string \<Rightarrow> exterr + string"
  Open :: "string \<Rightarrow> exterr + reader"

text \<open>The collaborators of the workspace package.\<close>

record wsys =
  WorkspaceNew :: "string \<Rightarrow> exterr + workspace"
  ExerciseDir :: "workspace \<Rightarrow> string \<Rightarrow> exterr + string"
  NewExerciseFromDir :: "string \<Rightarrow> exercise"
  ExerciseFilepath :: "exercise \<Rightarrow> string"
  MigrateLegacyMetadataFile :: "exercise \<Rightarrow> exterr + string"
  NewExerciseMetadata :: "string \<Rightarrow> exterr + metadata"
  NewDocument :: "string \<Rightarrow> string \<Rightarrow> exterr + document"

subsection \<open>The store\<close>

text \<open>
  A Go slice of strings is a reference to a backing array. The command never reslices or
  appends to \<open>args\<close>, so a slice is the address of its array, and the store maps each
  address to the array's elements. Copying the slice (\<open>args: args\<close> in
  \<open>newSubmitContext\<close>) copies the address: both names see every write.

  The rest of the world the command writes to: the \<open>Err\<close> and \<open>Out\<close> writers and the
  requests handed to \<open>client.Do\<close>. What is printed is kept as the message and its
  operand: the warning for an empty file with the file's path, the migration status, the
  closing message with its suffix, and the line with the solution's URL.
\<close>

type_synonym addr = nat

datatype printed =
    WarnEmptyFile string
  | MigrationStatus string
  | SubmittedMsg string
  | SolutionURL string

record part =
  FieldName :: string
  FileName :: string
  Content :: string

record request =
  Method :: string
  Url :: string
  Body :: "part list"
  ContentType :: string

record world =
  Heap :: "addr \<Rightarrow> string list"
  ErrOut :: "printed list"
  StdOut :: "printed list"
  Sent :: "request list"

type_synonym config = "string \<Rightarrow> string"

record submitContext =
  usrCfg :: config
  verbose :: bool
  args :: addr
  exercise :: exercise
  metadata :: "metadata option"
  documents :: "document list"

section \<open>sanitizeArgs\<close>

text \<open>
  The body of \<open>for i, arg := range s.args\<close>, for the indices still to visit: the element
  is read from the array at iteration \<open>i\<close>, and \<open>s.args[i] = src\<close> writes the array.
  A failing iteration returns with the writes of the earlier ones in place.
\<close>

fun sanitizeFrom :: "fsys \<Rightarrow> string \<Rightarrow> addr \<Rightarrow> nat list \<Rightarrow> world \<Rightarrow> error option \<times> world" where
  "sanitizeFrom fs bn a [] w = (None, w)"
| "sanitizeFrom fs bn a (i # rest) w =
     (case Abs fs (Heap w a ! i) of
        Inl err \<Rightarrow> (Some (Propagated err), w)
      | Inr arg \<Rightarrow>
          (case Lstat fs arg of
             Inl err \<Rightarrow>
               (if IsNotExist err then (Some (NotFoundError arg), w)
                else (Some (Propagated err), w))
           | Inr info \<Rightarrow>
               if IsDir info then (Some (UnsupportedTargetError arg bn), w)
               else
                 (case EvalSymlinks fs arg of
                    Inl err \<Rightarrow> (Some (Propagated err), w)
                  | Inr src \<Rightarrow>
                      sanitizeFrom fs bn a rest
                        (w\<lparr>Heap := (Heap w)(a := (Heap w a)[i := src])\<rparr>))))"

definition sanitizeArgs :: "fsys \<Rightarrow> string \<Rightarrow> submitContext \<Rightarrow> world \<Rightarrow> error option \<times> world" where
  "sanitizeArgs fs bn s w = sanitizeFrom fs bn (args s) [0..<length (Heap w (args s))] w"

section \<open>_exercise\<close>

text \<open>
  \<open>for _, arg := range s.args\<close> with the variable \<open>exerciseDir\<close>, which starts as the
  empty string and holds the directory of the last path seen.
\<close>

fun exerciseLoop :: "wsys \<Rightarrow> string \<Rightarrow> workspace \<Rightarrow> string \<Rightarrow> string list \<Rightarrow> error + string" where
  "exerciseLoop ws mm wsp exerciseDir [] = Inr exerciseDir"
| "exerciseLoop ws mm wsp exerciseDir (arg # rest) =
     (case ExerciseDir ws wsp arg of
        Inl err \<Rightarrow>
          (if IsMissingMetadata err then Inl (MissingMetadataError mm)
           else Inl (Propagated err))
      | Inr dir \<Rightarrow>
          if exerciseDir \<noteq> [] \<and> dir \<noteq> exerciseDir then Inl MixedSolutionError
          else exerciseLoop ws mm wsp dir rest)"

text \<open>\<open>mm\<close> is the package constant \<open>msgMissingMetadata\<close>, declared outside src/.\<close>

definition ctx_exercise :: "wsys \<Rightarrow> string \<Rightarrow> submitContext \<Rightarrow> world \<Rightarrow> error + exercise" where
  "ctx_exercise ws mm s w =
     (case WorkspaceNew ws (usrCfg s ''workspace'') of
        Inl err \<Rightarrow> Inl (Propagated err)
      | Inr wsp \<Rightarrow>
          (case exerciseLoop ws mm wsp [] (Heap w (args s)) of
             Inl e \<Rightarrow> Inl e
           | Inr exerciseDir \<Rightarrow> Inr (NewExerciseFromDir ws exerciseDir)))"

section \<open>migrateLegacyMetadata and _metadata\<close>

definition migrateLegacyMetadata :: "wsys \<Rightarrow> submitContext \<Rightarrow> world \<Rightarrow> error option \<times> world" where
  "migrateLegacyMetadata ws s w =
     (case MigrateLegacyMetadataFile ws (exercise s) of
        Inl err \<Rightarrow> (Some (Propagated err), w)
      | Inr migrationStatus \<Rightarrow>
          (None, if verbose s then w\<lparr>ErrOut := ErrOut w @ [MigrationStatus migrationStatus]\<rparr> else w))"

text \<open>\<open>bn\<close> is the package variable \<open>BinaryName\<close>, declared outside src/.\<close>

definition ctx_metadata :: "wsys \<Rightarrow> string \<Rightarrow> submitContext \<Rightarrow> error + metadata" where
  "ctx_metadata ws bn s =
     (case NewExerciseMetadata ws (ExerciseFilepath ws (exercise s)) of
        Inl err \<Rightarrow> Inl (Propagated err)
      | Inr md \<Rightarrow>
          if Exercise md \<noteq> Slug (exercise s)
          then Inl (SlugMismatchError (Slug (exercise s)) (Exercise md))
          else if \<not> IsRequester md
          then Inl (UnlinkedSolutionError bn (Exercise md) (Track md))
          else Inr md)"

section \<open>_documents\<close>

definition maxFileSize :: "64 word" where
  "maxFileSize = 65535"

text \<open>
  \<open>for _, file := range s.args\<close> with the slice \<open>docs\<close>. \<open>info.Size() >= maxFileSize\<close>
  compares two int64 values, so the words are compared as signed numbers. The warning
  printed for an empty file stays printed when a later file fails.
\<close>

fun documentsLoop ::
  "fsys \<Rightarrow> wsys \<Rightarrow> string \<Rightarrow> string list \<Rightarrow> document list \<Rightarrow> world \<Rightarrow> (error + document list) \<times> world" where
  "documentsLoop fs ws root [] docs w = (Inr docs, w)"
| "documentsLoop fs ws root (file # rest) docs w =
     (case Stat fs file of
        Inl err \<Rightarrow> (Inl (Propagated err), w)
      | Inr info \<Rightarrow>
          if word_sle maxFileSize (Size info) then (Inl (FileTooLargeError file maxFileSize), w)
          else if Size info = 0
          then documentsLoop fs ws root rest docs (w\<lparr>ErrOut := ErrOut w @ [WarnEmptyFile file]\<rparr>)
          else
            (case NewDocument ws root file of
               Inl err \<Rightarrow> (Inl (Propagated err), w)
             | Inr doc \<Rightarrow> documentsLoop fs ws root rest (docs @ [doc]) w))"

definition ctx_documents ::
  "fsys \<Rightarrow> wsys \<Rightarrow> submitContext \<Rightarrow> world \<Rightarrow> (error + document list) \<times> world" where
  "ctx_documents fs ws s w =
     (case documentsLoop fs ws (ExerciseFilepath ws (exercise s)) (Heap w (args s)) [] w of
        (Inl e, w') \<Rightarrow> (Inl e, w')
      | (Inr docs, w') \<Rightarrow>
          if length docs = 0 then (Inl NoFilesToSubmitError, w') else (Inr docs, w'))"

section \<open>newSubmitContext\<close>

definition newSubmitContext ::
  "fsys \<Rightarrow> wsys \<Rightarrow> string \<Rightarrow> string \<Rightarrow> config \<Rightarrow> bool \<Rightarrow> addr \<Rightarrow> world \<Rightarrow> (error + submitContext) \<times> world" where
  "newSubmitContext fs ws bn mm cfg flags a w =
     (let ctx = \<lparr>usrCfg = cfg, verbose = flags, args = a,
                 exercise = \<lparr>Root = [], ExTrack = [], Slug = []\<rparr>,
                 metadata = None, documents = []\<rparr>
      in case sanitizeArgs fs bn ctx w of
           (Some e, w1) \<Rightarrow> (Inl e, w1)
         | (None, w1) \<Rightarrow>
             (case ctx_exercise ws mm ctx w1 of
                Inl e \<Rightarrow> (Inl e, w1)
              | Inr ex \<Rightarrow>
                  (let ctx = ctx\<lparr>exercise := ex\<rparr>
                   in case migrateLegacyMetadata ws ctx w1 of
                        (Some e, w2) \<Rightarrow> (Inl e, w2)
                      | (None, w2) \<Rightarrow>
                          (case ctx_metadata ws bn ctx of
                             Inl e \<Rightarrow> (Inl e, w2)
                           | Inr md \<Rightarrow>
                               (let ctx = ctx\<lparr>metadata := Some md\<rparr>
                                in case ctx_documents fs ws ctx w2 of
                                     (Inl e, w3) \<Rightarrow> (Inl e, w3)
                                   | (Inr docs, w3) \<Rightarrow> (Inr (ctx\<lparr>documents := docs\<rparr>), w3))))))"

section \<open>fmt.Errorf with a format and no operands\<close>

text \<open>
  \<open>submitDocuments\<close> ends a 400 exchange with \<open>fmt.Errorf(jsonErrBody.Error.Message)\<close>:
  the server's message is the format string, and there is no operand. What follows is the
  format loop of Go's fmt package (\<open>doPrintf\<close>) for an empty operand list: text up to a
  percent sign is copied; after a percent sign come flags, an argument index in brackets,
  a width, a precision and the verb. With no operand every index is bad, every star has
  no integer to read, and every verb other than the percent sign has no operand.

  A verb is a rune. Strings that come out of encoding/json are valid UTF-8, where a
  rune is its lead byte and the continuation bytes the lead byte announces, and
  writing the rune back gives the same bytes.
\<close>

definition isFlag :: "char \<Rightarrow> bool" where
  "isFlag c = (c \<in> set ''#0+- '')"

definition isDigit :: "char \<Rightarrow> bool" where
  "isDigit c = (c \<in> set ''0123456789'')"

definition tooLarge :: "nat \<Rightarrow> bool" where
  "tooLarge x = (x > 1000000)"

text \<open>\<open>parsenum(s, start, end)\<close>: whether a number was read, and the index after it.\<close>

fun digitsLoop :: "string \<Rightarrow> nat \<Rightarrow> bool \<Rightarrow> nat \<Rightarrow> nat \<Rightarrow> bool \<times> nat" where
  "digitsLoop [] num isnum newi e = (isnum, newi)"
| "digitsLoop (c # cs) num isnum newi e =
     (if isDigit c
      then (if tooLarge num then (False, e)
            else digitsLoop cs (num * 10 + (of_char c - 48)) True (Suc newi) e)
      else (isnum, newi))"

definition parsenum :: "string \<Rightarrow> nat \<Rightarrow> nat \<Rightarrow> bool \<times> nat" where
  "parsenum s start e =
     (if start \<ge> e then (False, e)
      else digitsLoop (take (e - start) (drop start s)) 0 False start e)"

text \<open>
  \<open>parseArgNumber(format)\<close> on a string that starts with the opening bracket: the number
  of bytes to skip and whether a well-formed index was read.
\<close>

definition parseArgNumber :: "string \<Rightarrow> nat \<times> bool" where
  "parseArgNumber s =
     (if length s < 3 then (1, False)
      else
        (let j = Suc (length (takeWhile (\<lambda>c. c \<noteq> CHR '']'') (tl s)))
         in if j < length s
            then (case parsenum s 1 j of
                    (ok, newi) \<Rightarrow> if \<not> ok \<or> newi \<noteq> j then (j + 1, False) else (j + 1, True))
            else (1, False)))"

text \<open>
  \<open>argNumber\<close> with \<open>numArgs = 0\<close>: the new index into the format, \<open>found\<close>, and
  \<open>goodArgNum\<close>. No index is below the number of operands, so a bracket always clears
  \<open>goodArgNum\<close>.
\<close>

definition argNumber :: "string \<Rightarrow> nat \<Rightarrow> bool \<Rightarrow> nat \<times> bool \<times> bool" where
  "argNumber s i good =
     (if length s \<le> i \<or> s ! i \<noteq> CHR ''[''
      then (i, False, good)
      else (case parseArgNumber (drop i s) of (wid, ok) \<Rightarrow> (i + wid, ok, False)))"

definition runeLen :: "char \<Rightarrow> nat" where
  "runeLen c =
     (let b = (of_char c :: nat)
      in if b < 128 then 1 else if b < 224 then 2 else if b < 240 then 3 else 4)"

text \<open>
  One directive: \<open>s\<close> is the format after the percent sign. The result is what is
  written and how many bytes of \<open>s\<close> were read.
\<close>

definition directive :: "string \<Rightarrow> string \<times> nat" where
  "directive s =
     (let e = length s;
          i = length (takeWhile isFlag s);
          (i, afterIndex, good) = argNumber s i True;
          (out, i, afterIndex, good) =
            (if i < e \<and> s ! i = CHR ''*''
             then (''%!(BADWIDTH)'', i + 1, False, good)
             else (case parsenum s i e of
                     (widPresent, i') \<Rightarrow>
                       ([], i', afterIndex, if afterIndex \<and> widPresent then False else good)));
          (out, i, afterIndex, good) =
            (if i + 1 \<le> e \<and> s ! i = CHR ''.''
             then
               (let i = i + 1;
                    good = (if afterIndex then False else good);
                    (i, afterIndex, good) = argNumber s i good
                in if i < e \<and> s ! i = CHR ''*''
                   then (out @ ''%!(BADPREC)'', i + 1, False, good)
                   else (case parsenum s i e of (precPresent, i') \<Rightarrow> (out, i', afterIndex, good)))
             else (out, i, afterIndex, good));
          (i, afterIndex, good) =
            (if \<not> afterIndex then argNumber s i good else (i, afterIndex, good))
      in if i \<ge> e then (out @ ''%!(NOVERB)'', e)
         else
           (let verb = take (runeLen (s ! i)) (drop i s);
                i' = i + length verb
            in if verb = ''%'' then (out @ ''%'', i')
               else if \<not> good then (out @ ''%!'' @ verb @ ''(BADINDEX)'', i')
               else (out @ ''%!'' @ verb @ ''(MISSING)'', i')))"

fun doPrintf :: "string \<Rightarrow> string" where
  "doPrintf [] = []"
| "doPrintf (c # cs) =
     (if c \<noteq> CHR ''%'' then c # doPrintf cs
      else (case directive cs of (out, n) \<Rightarrow> out @ doPrintf (drop n cs)))"

definition Errorf :: "string \<Rightarrow> string" where
  "Errorf format = doPrintf format"

section \<open>submitDocuments\<close>

record client =
  Token :: string
  APIBaseURL :: string

record response =
  StatusCode :: int
  RespBody :: reader

text \<open>The struct \<open>apiErrorMessage\<close>: the two fields of its inner struct \<open>Error\<close>.\<close>

record apiErrorMessage =
  ErrorType :: string
  ErrorMessage :: string

text \<open>
  The collaborators of the api, net/http, encoding/json and mime/multipart packages.
  \<open>Decode\<close> is \<open>json.NewDecoder(body).Decode\<close> into an \<open>apiErrorMessage\<close>;
  \<open>Boundary\<close> is the boundary the multipart writer has drawn.
\<close>

record net =
  NewClient :: "string \<Rightarrow> string \<Rightarrow> exterr + client"
  NewRequestErr :: "string \<Rightarrow> string \<Rightarrow> exterr option"
  Do :: "client \<Rightarrow> request \<Rightarrow> exterr + response"
  Decode :: "reader \<Rightarrow> exterr + apiErrorMessage"
  Boundary :: string

text \<open>
  The multipart writer writes into a \<open>bytes.Buffer\<close>, whose \<open>Write\<close> never returns
  an error: \<open>CreateFormFile\<close> and \<open>Close\<close> succeed, and \<open>io.Copy\<close> fails only when
  reading the file fails. The body is kept as its list of parts; a part joins the list
  when its content has been copied, and a body is only sent when every part was.
\<close>

definition CreateFormFile :: "string \<Rightarrow> string \<Rightarrow> exterr + part" where
  "CreateFormFile fieldname filename =
     Inr \<lparr>FieldName = fieldname, FileName = filename, Content = []\<rparr>"

definition ioCopy :: "part \<Rightarrow> reader \<Rightarrow> exterr + part" where
  "ioCopy dst src =
     (case ReadErr src of
        Some err \<Rightarrow> Inl err
      | None \<Rightarrow> Inr (dst\<lparr>Content := Content dst @ Data src\<rparr>))"

definition writerClose :: "part list \<Rightarrow> exterr option" where
  "writerClose body = None"

definition FormDataContentType :: "net \<Rightarrow> string" where
  "FormDataContentType nt = ''multipart/form-data; boundary='' @ Boundary nt"

text \<open>
  Modelled from the spec: api.Client.NewRequest is outside src/. The spec gives
  "NewRequest(method, url, body) -> (request, error)" and "caller sets headers": the
  request carries the method, the URL and the body it was given.
\<close>

definition NewRequest :: "net \<Rightarrow> client \<Rightarrow> string \<Rightarrow> string \<Rightarrow> part list \<Rightarrow> exterr + request" where
  "NewRequest nt c method url body =
     (case NewRequestErr nt method url of
        Some err \<Rightarrow> Inl err
      | None \<Rightarrow> Inr \<lparr>Method = method, Url = url, Body = body, ContentType = []\<rparr>)"

fun writeParts :: "fsys \<Rightarrow> document list \<Rightarrow> part list \<Rightarrow> error + part list" where
  "writeParts fs [] body = Inr body"
| "writeParts fs (doc # rest) body =
     (case Open fs (Filepath doc) of
        Inl err \<Rightarrow> Inl (Propagated err)
      | Inr file \<Rightarrow>
          (case CreateFormFile ''files[]'' (Path doc) of
             Inl err \<Rightarrow> Inl (Propagated err)
           | Inr part \<Rightarrow>
               (case ioCopy part file of
                  Inl err \<Rightarrow> Inl (Propagated err)
                | Inr written \<Rightarrow> writeParts fs rest (body @ [written]))))"

definition StatusBadRequest :: int where
  "StatusBadRequest = 400"

text \<open>What happens once \<open>client.Do\<close> has returned a response.\<close>

definition handleResponse :: "net \<Rightarrow> response \<Rightarrow> error option" where
  "handleResponse nt resp =
     (if StatusCode resp = StatusBadRequest
      then (case Decode nt (RespBody resp) of
              Inl err \<Rightarrow> Some (ProtocolError err)
            | Inr jsonErrBody \<Rightarrow> Some (ApiError (Errorf (ErrorMessage jsonErrBody))))
      else (case ReadErr (RespBody resp) of
              Some err \<Rightarrow> Some (Propagated err)
            | None \<Rightarrow> None))"

definition submitDocuments :: "fsys \<Rightarrow> net \<Rightarrow> submitContext \<Rightarrow> world \<Rightarrow> error option \<times> world" where
  "submitDocuments fs nt s w =
     (case metadata s of
        None \<Rightarrow> (Some NilDereference, w)
      | Some md \<Rightarrow>
          if ID md = [] then (Some (InvalidStateError ''id is empty''), w)
          else if length (documents s) = 0 then (Some (InvalidStateError ''documents is empty''), w)
          else
            (case writeParts fs (documents s) [] of
               Inl e \<Rightarrow> (Some e, w)
             | Inr body \<Rightarrow>
                 (case writerClose body of
                    Some err \<Rightarrow> (Some (Propagated err), w)
                  | None \<Rightarrow>
                      (case NewClient nt (usrCfg s ''token'') (usrCfg s ''apibaseurl'') of
                         Inl err \<Rightarrow> (Some (Propagated err), w)
                       | Inr c \<Rightarrow>
                           (let url = usrCfg s ''apibaseurl'' @ ''/solutions/'' @ ID md
                            in case NewRequest nt c ''PATCH'' url body of
                                 Inl err \<Rightarrow> (Some (Propagated err), w)
                               | Inr req0 \<Rightarrow>
                                   (let req = req0\<lparr>ContentType := FormDataContentType nt\<rparr>;
                                        w1 = w\<lparr>Sent := Sent w @ [req]\<rparr>
                                    in case Do nt c req of
                                         Inl err \<Rightarrow> (Some (Propagated err), w1)
                                       | Inr resp \<Rightarrow> (handleResponse nt resp, w1)))))))"

section \<open>printResult and runSubmit\<close>

definition printResult :: "submitContext \<Rightarrow> world \<Rightarrow> world" where
  "printResult s w =
     (case metadata s of
        None \<Rightarrow> w
      | Some md \<Rightarrow>
          (let suffix =
                 (if AutoApprove md \<and> Team md = []
                  then ''You can complete the exercise and unlock the next core exercise at:'' @ [CHR 0x0A]
                  else ''View it at:'' @ [CHR 0x0A, CHR 0x0A] @ ''    '')
           in w\<lparr>ErrOut := ErrOut w @ [SubmittedMsg suffix], StdOut := StdOut w @ [SolutionURL (URL md)]\<rparr>))"

text \<open>
  The collaborators of one run. \<open>validateUserConfig\<close> is a function of the cmd package
  outside src/; \<open>BinaryName\<close> and \<open>msgMissingMetadata\<close> are package-level values.
\<close>

record env =
  FS :: fsys
  WS :: wsys
  NET :: net
  BinaryName :: string
  msgMissingMetadata :: string
  validateUserConfig :: "config \<Rightarrow> exterr option"

text \<open>
  \<open>runSubmit(cfg, flags, args)\<close>: \<open>cfg\<close> is \<open>cfg.UserViperConfig\<close>, \<open>flags\<close> the value of
  the verbose flag and \<open>a\<close> the caller's slice.
\<close>

definition runSubmit :: "env \<Rightarrow> config \<Rightarrow> bool \<Rightarrow> addr \<Rightarrow> world \<Rightarrow> error option \<times> world" where
  "runSubmit E cfg flags a w =
     (case validateUserConfig E cfg of
        Some err \<Rightarrow> (Some (Propagated err), w)
      | None \<Rightarrow>
          (case newSubmitContext (FS E) (WS E) (BinaryName E) (msgMissingMetadata E) cfg flags a w of
             (Inl e, w1) \<Rightarrow> (Some e, w1)
           | (Inr ctx, w1) \<Rightarrow>
               (case submitDocuments (FS E) (NET E) ctx w1 of
                  (Some e, w2) \<Rightarrow> (Some e, w2)
                | (None, w2) \<Rightarrow> (None, printResult ctx w2))))"

section \<open>Example runs\<close>

text \<open>
  A small file tree, a workspace and a server to run the command on. A path names a
  regular file with its content, a directory, or a symbolic link with its target.
  \<open>Lstat\<close> describes the link itself, \<open>Stat\<close> and \<open>Open\<close> follow it.
\<close>

datatype node = RegularFile string | Directory | Symlink string

definition noent :: exterr where
  "noent = \<lparr>ErrText = ''no such file or directory'', IsNotExist = True, IsMissingMetadata = False\<rparr>"

definition ioerr :: exterr where
  "ioerr = \<lparr>ErrText = ''unexpected EOF'', IsNotExist = False, IsMissingMetadata = False\<rparr>"

definition treeLstat :: "(string \<times> node) list \<Rightarrow> string \<Rightarrow> exterr + fileinfo" where
  "treeLstat tree p =
     (case map_of tree p of
        None \<Rightarrow> Inl noent
      | Some (RegularFile c) \<Rightarrow> Inr \<lparr>IsDir = False, Size = of_nat (length c)\<rparr>
      | Some Directory \<Rightarrow> Inr \<lparr>IsDir = True, Size = 4096\<rparr>
      | Some (Symlink t) \<Rightarrow> Inr \<lparr>IsDir = False, Size = of_nat (length t)\<rparr>)"

definition treeEvalSymlinks :: "(string \<times> node) list \<Rightarrow> string \<Rightarrow> exterr + string" where
  "treeEvalSymlinks tree p =
     (case map_of tree p of
        None \<Rightarrow> Inl noent
      | Some (Symlink t) \<Rightarrow> (case map_of tree t of None \<Rightarrow> Inl noent | Some n \<Rightarrow> Inr t)
      | Some n \<Rightarrow> Inr p)"

definition treeOpen :: "(string \<times> node) list \<Rightarrow> string \<Rightarrow> exterr + reader" where
  "treeOpen tree p =
     (case treeEvalSymlinks tree p of
        Inl e \<Rightarrow> Inl e
      | Inr q \<Rightarrow>
          (case map_of tree q of
             Some (RegularFile c) \<Rightarrow> Inr \<lparr>Data = c, ReadErr = None\<rparr>
           | Some n \<Rightarrow> Inr \<lparr>Data = [], ReadErr = Some ioerr\<rparr>
           | None \<Rightarrow> Inl noent))"

definition exampleFS :: "(string \<times> node) list \<Rightarrow> fsys" where
  "exampleFS tree =
     \<lparr>Abs = (\<lambda>p. Inr (if take 1 p = ''/'' then p else ''/w/go/hi/'' @ p)),
      Lstat = treeLstat tree,
      Stat = (\<lambda>p. case treeEvalSymlinks tree p of Inl e \<Rightarrow> Inl e | Inr q \<Rightarrow> treeLstat tree q),
      EvalSymlinks = treeEvalSymlinks tree,
      Open = treeOpen tree\<rparr>"

definition exampleWS :: "metadata \<Rightarrow> wsys" where
  "exampleWS md =
     \<lparr>WorkspaceNew = (\<lambda>d. Inr \<lparr>Dir = d\<rparr>),
      ExerciseDir = (\<lambda>wsp p.
         if take 9 p = ''/w/go/hi/'' then Inr ''/w/go/hi''
         else if take 9 p = ''/w/go/yo/'' then Inr ''/w/go/yo''
         else Inl \<lparr>ErrText = ''not in workspace'', IsNotExist = False, IsMissingMetadata = False\<rparr>),
      NewExerciseFromDir = (\<lambda>d. \<lparr>Root = ''/w'', ExTrack = ''go'', Slug = drop 6 d\<rparr>),
      ExerciseFilepath = (\<lambda>ex. Root ex @ ''/'' @ ExTrack ex @ ''/'' @ Slug ex),
      MigrateLegacyMetadataFile = (\<lambda>ex. Inr []),
      NewExerciseMetadata = (\<lambda>root. Inr md),
      NewDocument = (\<lambda>root file. Inr \<lparr>Path = drop (length root + 1) file, Filepath = file\<rparr>)\<rparr>"

text \<open>
  The server answers every request with \<open>resp\<close>. The decoder knows the one JSON text
  the examples send; every other body is a syntax error.
\<close>

definition percentBody :: string where
  \<open>percentBody = ''{"error":{"type":"track_ambiguous","message":"100% wrong"}}''\<close>

definition exampleDecode :: "reader \<Rightarrow> exterr + apiErrorMessage" where
  "exampleDecode body =
     (if ReadErr body = None \<and> Data body = percentBody
      then Inr \<lparr>ErrorType = ''track_ambiguous'', ErrorMessage = ''100% wrong''\<rparr>
      else Inl \<lparr>ErrText = ''invalid character'', IsNotExist = False, IsMissingMetadata = False\<rparr>)"

definition exampleNet :: "response \<Rightarrow> net" where
  "exampleNet resp =
     \<lparr>NewClient = (\<lambda>token url. Inr \<lparr>Token = token, APIBaseURL = url\<rparr>),
      NewRequestErr = (\<lambda>method url. None),
      Do = (\<lambda>c req. Inr resp),
      Decode = exampleDecode,
      Boundary = ''b0''\<rparr>"

definition exampleEnv :: "(string \<times> node) list \<Rightarrow> metadata \<Rightarrow> response \<Rightarrow> env" where
  "exampleEnv tree md resp =
     \<lparr>FS = exampleFS tree, WS = exampleWS md, NET = exampleNet resp,
      BinaryName = ''exercism'', msgMissingMetadata = ''metadata missing'',
      validateUserConfig = (\<lambda>cfg. None)\<rparr>"

definition exampleCfg :: config where
  "exampleCfg key =
     (if key = ''workspace'' then ''/w''
      else if key = ''token'' then ''t0''
      else if key = ''apibaseurl'' then ''http://api''
      else [])"

definition exampleTree :: "(string \<times> node) list" where
  "exampleTree =
     [(''/w/go/hi/a.txt'', RegularFile ''package hi''),
      (''/w/go/hi/b.txt'', RegularFile []),
      (''/w/go/hi/c.txt'', RegularFile ''// c''),
      (''/w/go/hi/sub'', Directory),
      (''/w/go/hi/link'', Symlink ''/w/go/hi/sub''),
      (''/w/go/hi/max'', RegularFile (replicate 65534 (CHR ''x''))),
      (''/w/go/hi/big'', RegularFile (replicate 65535 (CHR ''x''))),
      (''/w/go/yo/d.txt'', RegularFile ''// d'')]"

definition exampleMetadata :: metadata where
  "exampleMetadata =
     \<lparr>ID = ''abc123'', URL = ''http://site/abc123'', Team = [], Exercise = ''hi'',
      Track = ''go'', IsRequester = True, AutoApprove = False\<rparr>"

definition okResponse :: response where
  "okResponse = \<lparr>StatusCode = 200, RespBody = \<lparr>Data = ''{}'', ReadErr = None\<rparr>\<rparr>"

definition exampleWorld :: "string list \<Rightarrow> world" where
  "exampleWorld argv = \<lparr>Heap = (\<lambda>a. [])(0 := argv), ErrOut = [], StdOut = [], Sent = []\<rparr>"

definition exampleContext :: submitContext where
  "exampleContext =
     \<lparr>usrCfg = exampleCfg, verbose = False, args = 0,
      exercise = \<lparr>Root = ''/w'', ExTrack = ''go'', Slug = ''hi''\<rparr>,
      metadata = Some exampleMetadata, documents = []\<rparr>"

definition failedDrainResponse :: response where
  "failedDrainResponse = \<lparr>StatusCode = 500, RespBody = \<lparr>Data = ''Internal'', ReadErr = Some ioerr\<rparr>\<rparr>"

definition badRequestResponse :: response where
  "badRequestResponse = \<lparr>StatusCode = 400, RespBody = \<lparr>Data = percentBody, ReadErr = None\<rparr>\<rparr>"

text \<open>What the example tree answers for a path: its file information, its document, its bytes.\<close>

definition exampleInfo :: "string \<Rightarrow> fileinfo" where
  "exampleInfo p = (case Stat (exampleFS exampleTree) p of Inr i \<Rightarrow> i | Inl e \<Rightarrow> \<lparr>IsDir = False, Size = 0\<rparr>)"

definition exampleDoc :: "string \<Rightarrow> document" where
  "exampleDoc p = \<lparr>Path = drop 9 p, Filepath = p\<rparr>"

definition exampleContent :: "string \<Rightarrow> string" where
  "exampleContent p = (case Open (exampleFS exampleTree) p of Inr r \<Rightarrow> Data r | Inl e \<Rightarrow> [])"

definition readyContext :: submitContext where
  "readyContext = exampleContext\<lparr>documents := [exampleDoc ''/w/go/hi/a.txt'']\<rparr>"

section \<open>Lemmas about the stages\<close>

lemma sanitizeFrom_frame:
  "sanitizeFrom fs bn a is w = (r, w') \<Longrightarrow>
     ErrOut w' = ErrOut w \<and> StdOut w' = StdOut w \<and> Sent w' = Sent w \<and>
     (\<forall>b. b \<noteq> a \<longrightarrow> Heap w' b = Heap w b) \<and> length (Heap w' a) = length (Heap w a)"
proof (induction "is" arbitrary: w)
  case Nil
  then show ?case by simp
next
  case (Cons i rest)
  show ?case
  proof (cases "Abs fs (Heap w a ! i)")
    case (Inl e)
    with Cons.prems show ?thesis by simp
  next
    case (Inr arg)
    note abs = this
    show ?thesis
    proof (cases "Lstat fs arg")
      case (Inl e)
      with Cons.prems abs show ?thesis by (simp split: if_splits)
    next
      case (Inr info)
      note ls = this
      show ?thesis
      proof (cases "IsDir info")
        case True
        with Cons.prems abs ls show ?thesis by simp
      next
        case False
        note nd = this
        show ?thesis
        proof (cases "EvalSymlinks fs arg")
          case (Inl e)
          with Cons.prems abs ls nd show ?thesis by simp
        next
          case (Inr src)
          let ?w1 = "w\<lparr>Heap := (Heap w)(a := (Heap w a)[i := src])\<rparr>"
          from Cons.prems abs ls nd Inr have "sanitizeFrom fs bn a rest ?w1 = (r, w')" by simp
          from Cons.IH [OF this] show ?thesis by simp
        qed
      qed
    qed
  qed
qed

lemma sanitizeFrom_success:
  "sanitizeFrom fs bn a is w = (None, w') \<Longrightarrow> distinct is \<Longrightarrow> \<forall>i\<in>set is. i < length (Heap w a) \<Longrightarrow>
     (\<forall>i\<in>set is. \<exists>arg info. Abs fs (Heap w a ! i) = Inr arg \<and> Lstat fs arg = Inr info \<and> \<not> IsDir info
          \<and> EvalSymlinks fs arg = Inr (Heap w' a ! i)) \<and>
     (\<forall>i. i \<notin> set is \<longrightarrow> Heap w' a ! i = Heap w a ! i)"
proof (induction "is" arbitrary: w)
  case Nil
  then show ?case by simp
next
  case (Cons i rest)
  from Cons.prems(1) obtain arg where abs: "Abs fs (Heap w a ! i) = Inr arg"
    by (cases "Abs fs (Heap w a ! i)") auto
  from Cons.prems(1) abs obtain info where ls: "Lstat fs arg = Inr info"
    by (cases "Lstat fs arg") (auto split: if_splits)
  from Cons.prems(1) abs ls have nd: "\<not> IsDir info"
    by (auto split: if_splits)
  from Cons.prems(1) abs ls nd obtain src where ev: "EvalSymlinks fs arg = Inr src"
    by (cases "EvalSymlinks fs arg") auto
  let ?w1 = "w\<lparr>Heap := (Heap w)(a := (Heap w a)[i := src])\<rparr>"
  from Cons.prems(1) abs ls nd ev have run: "sanitizeFrom fs bn a rest ?w1 = (None, w')" by simp
  from Cons.prems(2) have d: "distinct rest" and ni: "i \<notin> set rest" by simp_all
  from Cons.prems(3) have il: "i < length (Heap w a)" and b: "\<forall>j\<in>set rest. j < length (Heap ?w1 a)" by simp_all
  note IH = Cons.IH [OF run d b]
  from IH ni il have at_i: "Heap w' a ! i = src" by simp
  have rest_ok: "\<forall>j\<in>set rest. \<exists>arg info. Abs fs (Heap w a ! j) = Inr arg \<and> Lstat fs arg = Inr info \<and> \<not> IsDir info
          \<and> EvalSymlinks fs arg = Inr (Heap w' a ! j)"
  proof
    fix j assume j: "j \<in> set rest"
    with ni have "j \<noteq> i" by auto
    then have "Heap ?w1 a ! j = Heap w a ! j" by simp
    with IH j show "\<exists>arg info. Abs fs (Heap w a ! j) = Inr arg \<and> Lstat fs arg = Inr info \<and> \<not> IsDir info
          \<and> EvalSymlinks fs arg = Inr (Heap w' a ! j)" by (metis (no_types, lifting))
  qed
  have other: "\<forall>j. j \<notin> set (i # rest) \<longrightarrow> Heap w' a ! j = Heap w a ! j"
    using IH by auto
  from abs ls nd ev at_i rest_ok other show ?case by auto
qed

lemma sanitizeArgs_args_only:
  "args s = args s' \<Longrightarrow> sanitizeArgs fs bn s w = sanitizeArgs fs bn s' w"
  by (simp add: sanitizeArgs_def)

lemma exerciseLoop_tracking:
  "cur \<noteq> [] \<Longrightarrow> \<forall>p\<in>set ps. \<exists>d. ExerciseDir ws wsp p = Inr d \<Longrightarrow>
   exerciseLoop ws mm wsp cur ps =
     (if \<forall>p\<in>set ps. ExerciseDir ws wsp p = Inr cur then Inr cur else Inl MixedSolutionError)"
proof (induction ps)
  case Nil
  show ?case by simp
next
  case (Cons p ps)
  from Cons.prems(2) obtain d where d: "ExerciseDir ws wsp p = Inr d" by auto
  show ?case
  proof (cases "d = cur")
    case True
    with Cons d show ?thesis by simp
  next
    case False
    with Cons.prems(1) d show ?thesis by simp
  qed
qed

lemma exerciseLoop_first:
  assumes "ExerciseDir ws wsp p = Inr d" and "d \<noteq> []"
    and "\<forall>q\<in>set ps. \<exists>d. ExerciseDir ws wsp q = Inr d"
  shows "exerciseLoop ws mm wsp [] (p # ps) =
     (if \<forall>q\<in>set ps. ExerciseDir ws wsp q = Inr d then Inr d else Inl MixedSolutionError)"
  using assms by (simp add: exerciseLoop_tracking)

lemma exerciseLoop_agree:
  "\<forall>p\<in>set ps. ExerciseDir ws wsp p = Inr d \<Longrightarrow> exerciseLoop ws mm wsp d ps = Inr d"
  by (induction ps) simp_all

lemma exerciseLoop_agree_start:
  "\<forall>p\<in>set ps. ExerciseDir ws wsp p = Inr d \<Longrightarrow> ps \<noteq> [] \<Longrightarrow> exerciseLoop ws mm wsp [] ps = Inr d"
  by (cases ps) (simp_all add: exerciseLoop_agree)

lemma documentsLoop_pass:
  assumes "\<forall>p\<in>set ps. Stat fs p = Inr (info p) \<and> \<not> word_sle maxFileSize (Size (info p)) \<and>
             (Size (info p) \<noteq> 0 \<longrightarrow> NewDocument ws root p = Inr (doc p))"
  shows "documentsLoop fs ws root (ps @ rest) docs w =
         documentsLoop fs ws root rest
           (docs @ map doc (filter (\<lambda>p. Size (info p) \<noteq> 0) ps))
           (w\<lparr>ErrOut := ErrOut w @ map WarnEmptyFile (filter (\<lambda>p. Size (info p) = 0) ps)\<rparr>)"
  using assms
proof (induction ps arbitrary: docs w)
  case Nil
  show ?case by simp
next
  case (Cons p ps)
  from Cons.prems have p: "Stat fs p = Inr (info p)" "\<not> word_sle maxFileSize (Size (info p))"
    "Size (info p) \<noteq> 0 \<longrightarrow> NewDocument ws root p = Inr (doc p)"
    and rest: "\<forall>p\<in>set ps. Stat fs p = Inr (info p) \<and> \<not> word_sle maxFileSize (Size (info p)) \<and>
             (Size (info p) \<noteq> 0 \<longrightarrow> NewDocument ws root p = Inr (doc p))"
    by simp_all
  show ?case
  proof (cases "Size (info p) = 0")
    case True
    with p show ?thesis by (simp add: Cons.IH [OF rest])
  next
    case False
    with p show ?thesis by (simp add: Cons.IH [OF rest])
  qed
qed

lemma documentsLoop_all_pass:
  assumes "\<forall>p\<in>set ps. Stat fs p = Inr (info p) \<and> \<not> word_sle maxFileSize (Size (info p)) \<and>
             (Size (info p) \<noteq> 0 \<longrightarrow> NewDocument ws root p = Inr (doc p))"
  shows "documentsLoop fs ws root ps docs w =
           (Inr (docs @ map doc (filter (\<lambda>p. Size (info p) \<noteq> 0) ps)),
            w\<lparr>ErrOut := ErrOut w @ map WarnEmptyFile (filter (\<lambda>p. Size (info p) = 0) ps)\<rparr>)"
  using documentsLoop_pass [OF assms, of "[]" docs w] by simp

lemma documentsLoop_frame:
  "documentsLoop fs ws root ps docs w = (r, w') \<Longrightarrow>
     Heap w' = Heap w \<and> StdOut w' = StdOut w \<and> Sent w' = Sent w"
proof (induction ps arbitrary: docs w)
  case Nil
  then show ?case by simp
next
  case (Cons p ps)
  show ?case
  proof (cases "Stat fs p")
    case (Inl e)
    with Cons.prems show ?thesis by simp
  next
    case (Inr info)
    note st = this
    show ?thesis
    proof (cases "word_sle maxFileSize (Size info)")
      case True
      with Cons.prems st show ?thesis by simp
    next
      case False
      note small = this
      show ?thesis
      proof (cases "Size info = 0")
        case True
        with Cons.prems st small
        have "documentsLoop fs ws root ps docs (w\<lparr>ErrOut := ErrOut w @ [WarnEmptyFile p]\<rparr>) = (r, w')"
          by simp
        from Cons.IH [OF this] show ?thesis by simp
      next
        case False
        note nz = this
        show ?thesis
        proof (cases "NewDocument ws root p")
          case (Inl e)
          with Cons.prems st small nz show ?thesis by simp
        next
          case (Inr d)
          with Cons.prems st small nz
          have "documentsLoop fs ws root ps (docs @ [d]) w = (r, w')" by simp
          from Cons.IH [OF this] show ?thesis by simp
        qed
      qed
    qed
  qed
qed

lemma migrateLegacyMetadata_frame:
  "migrateLegacyMetadata ws s w = (r, w') \<Longrightarrow>
     Heap w' = Heap w \<and> StdOut w' = StdOut w \<and> Sent w' = Sent w"
  by (auto simp: migrateLegacyMetadata_def split: sum.splits if_splits)

lemma ctx_documents_frame:
  "ctx_documents fs ws s w = (r, w') \<Longrightarrow>
     Heap w' = Heap w \<and> StdOut w' = StdOut w \<and> Sent w' = Sent w"
  by (auto simp: ctx_documents_def split: prod.splits sum.splits if_splits dest: documentsLoop_frame)

lemma writeParts_all:
  assumes "\<forall>p\<in>set qs. Open fs (Filepath (doc p)) = Inr \<lparr>Data = content p, ReadErr = None\<rparr>"
  shows "writeParts fs (map doc qs) body =
         Inr (body @ map (\<lambda>p. \<lparr>FieldName = ''files[]'', FileName = Path (doc p), Content = content p\<rparr>) qs)"
  using assms
proof (induction qs arbitrary: body)
  case Nil
  show ?case by simp
next
  case (Cons q qs)
  then show ?case by (simp add: CreateFormFile_def ioCopy_def)
qed

lemma submitDocuments_frame:
  "submitDocuments fs nt s w = (r, w') \<Longrightarrow>
     Heap w' = Heap w \<and> ErrOut w' = ErrOut w \<and> StdOut w' = StdOut w"
  by (auto simp: submitDocuments_def Let_def split: option.splits sum.splits if_splits)

lemma submitDocuments_sends:
  assumes md: "metadata s = Some md" "ID md \<noteq> []"
    and docs: "documents s \<noteq> []" "writeParts fs (documents s) [] = Inr body"
    and cl: "NewClient nt (usrCfg s ''token'') (usrCfg s ''apibaseurl'') = Inr c"
    and nr: "NewRequestErr nt ''PATCH'' (usrCfg s ''apibaseurl'' @ ''/solutions/'' @ ID md) = None"
  shows "Sent (snd (submitDocuments fs nt s w)) =
         Sent w @ [\<lparr>Method = ''PATCH'', Url = usrCfg s ''apibaseurl'' @ ''/solutions/'' @ ID md,
                    Body = body, ContentType = FormDataContentType nt\<rparr>]"
  using assms
  by (simp add: submitDocuments_def writerClose_def NewRequest_def Let_def split: sum.splits)

lemma submitDocuments_result:
  "Sent (snd (submitDocuments fs nt s w)) \<noteq> Sent w \<Longrightarrow> \<forall>c req. Do nt c req = Inr resp \<Longrightarrow>
   fst (submitDocuments fs nt s w) = handleResponse nt resp"
  by (auto simp: submitDocuments_def Let_def split: option.splits sum.splits if_splits)

lemma submitDocuments_drain_error:
  "\<forall>c req. Do nt c req = Inr resp \<Longrightarrow> handleResponse nt resp = Some e \<Longrightarrow>
   \<exists>e'. fst (submitDocuments fs nt s w) = Some e'"
  by (auto simp: submitDocuments_def Let_def split: option.splits sum.splits if_splits)

lemma printResult_frame:
  "Heap (printResult s w) = Heap w \<and> Sent (printResult s w) = Sent w"
  by (simp add: printResult_def Let_def split: option.splits)

lemma newSubmitContext_after_sanitize:
  assumes run: "newSubmitContext fs ws bn mm cfg flags a w = (r, w')"
    and san: "sanitizeArgs fs bn s w = (x, w1)" and a: "args s = a"
  shows "Heap w' = Heap w1 \<and> Sent w' = Sent w"
proof -
  let ?ctx = "\<lparr>usrCfg = cfg, verbose = flags, args = a,
                 exercise = \<lparr>Root = [], ExTrack = [], Slug = []\<rparr>,
                 metadata = None, documents = []\<rparr>"
  have "sanitizeArgs fs bn ?ctx w = sanitizeArgs fs bn s w"
    by (rule sanitizeArgs_args_only) (simp add: a)
  with san have san': "sanitizeArgs fs bn ?ctx w = (x, w1)" by simp
  then have s1: "Sent w1 = Sent w"
    by (auto simp: sanitizeArgs_def dest: sanitizeFrom_frame)
  from run san' s1 show ?thesis
    by (auto simp: newSubmitContext_def Let_def
          split: prod.splits option.splits sum.splits
          dest!: migrateLegacyMetadata_frame ctx_documents_frame)
qed

lemma runSubmit_after_sanitize:
  assumes cfg: "validateUserConfig E cfg = None"
    and san: "sanitizeArgs (FS E) (BinaryName E) s w = (x, w1)" and a: "args s = a"
  shows "Heap (snd (runSubmit E cfg flags a w)) = Heap w1"
proof -
  obtain r w2 where n: "newSubmitContext (FS E) (WS E) (BinaryName E) (msgMissingMetadata E) cfg flags a w = (r, w2)"
    by (cases "newSubmitContext (FS E) (WS E) (BinaryName E) (msgMissingMetadata E) cfg flags a w")
  from newSubmitContext_after_sanitize [OF n san a] have h: "Heap w2 = Heap w1" by simp
  show ?thesis
  proof (cases r)
    case (Inl e)
    with cfg n h show ?thesis by (simp add: runSubmit_def)
  next
    case (Inr ctx)
    obtain r3 w3 where sd: "submitDocuments (FS E) (NET E) ctx w2 = (r3, w3)"
      by (cases "submitDocuments (FS E) (NET E) ctx w2")
    from submitDocuments_frame [OF sd] h have "Heap w3 = Heap w1" by simp
    with cfg n Inr sd show ?thesis
      by (cases r3) (simp_all add: runSubmit_def printResult_frame)
  qed
qed

lemma runSubmit_result:
  "fst (runSubmit E cfg flags a w) = None \<Longrightarrow>
   \<exists>ctx w1. fst (submitDocuments (FS E) (NET E) ctx w1) = None"
  by (auto simp: runSubmit_def split: option.splits sum.splits prod.splits) (metis fst_conv)

lemma runSubmit_sent:
  assumes "Sent (snd (runSubmit E cfg flags a w)) \<noteq> Sent w"
  shows "\<exists>ctx w1. Sent w1 = Sent w \<and> Sent (snd (submitDocuments (FS E) (NET E) ctx w1)) \<noteq> Sent w1 \<and>
            fst (runSubmit E cfg flags a w) = fst (submitDocuments (FS E) (NET E) ctx w1)"
proof -
  let ?c0 = "\<lparr>usrCfg = cfg, verbose = flags, args = a,
               exercise = \<lparr>Root = [], ExTrack = [], Slug = []\<rparr>,
               metadata = None, documents = []\<rparr>"
  obtain x w0 where san: "sanitizeArgs (FS E) (BinaryName E) ?c0 w = (x, w0)"
    by (cases "sanitizeArgs (FS E) (BinaryName E) ?c0 w")
  obtain r w1 where n: "newSubmitContext (FS E) (WS E) (BinaryName E) (msgMissingMetadata E) cfg flags a w = (r, w1)"
    by (cases "newSubmitContext (FS E) (WS E) (BinaryName E) (msgMissingMetadata E) cfg flags a w")
  from newSubmitContext_after_sanitize [OF n san] have s1: "Sent w1 = Sent w" by simp
  show ?thesis
  proof (cases "validateUserConfig E cfg")
    case (Some e)
    with assms show ?thesis by (simp add: runSubmit_def)
  next
    case None
    note v = this
    show ?thesis
    proof (cases r)
      case (Inl e)
      with assms v n s1 show ?thesis by (simp add: runSubmit_def)
    next
      case (Inr ctx)
      obtain r3 w3 where sd: "submitDocuments (FS E) (NET E) ctx w1 = (r3, w3)"
        by (cases "submitDocuments (FS E) (NET E) ctx w1")
      from assms v n Inr sd s1
      have "Sent w3 \<noteq> Sent w1 \<and> fst (runSubmit E cfg flags a w) = r3"
        by (cases r3) (simp_all add: runSubmit_def printResult_frame)
      with sd s1 show ?thesis by (intro exI [of _ ctx] exI [of _ w1]) simp
    qed
  qed
qed

lemmas example_defs =
  exampleFS_def exampleWS_def exampleNet_def exampleEnv_def exampleCfg_def exampleTree_def
  exampleMetadata_def okResponse_def exampleDecode_def percentBody_def exampleWorld_def exampleContext_def
  failedDrainResponse_def badRequestResponse_def readyContext_def exampleInfo_def
  exampleDoc_def exampleContent_def treeLstat_def treeEvalSymlinks_def treeOpen_def
  noent_def ioerr_def

lemmas model_defs =
  runSubmit_def newSubmitContext_def sanitizeArgs_def ctx_exercise_def migrateLegacyMetadata_def
  ctx_metadata_def ctx_documents_def submitDocuments_def handleResponse_def printResult_def
  CreateFormFile_def ioCopy_def writerClose_def NewRequest_def FormDataContentType_def
  StatusBadRequest_def maxFileSize_def word_sle_eq Let_def

section \<open>The claims\<close>

text \<open>
  C1 (as amended). Take a run in which the user configuration is valid, every argument
  resolves (\<open>sanitizeArgs\<close> succeeds, leaving the resolved paths \<open>Heap w1 a\<close>), the
  workspace resolver gives one exercise directory for all of them, the migration and the
  metadata load succeed, the metadata names this exercise, belongs to the requester and
  has a solution ID, every file is below the size limit, at least one file is not empty,
  each non-empty file becomes a document whose file opens and reads to its end, and the
  client and the request can be built. Then the run hands exactly one request to the
  HTTP client: a PATCH to \<open>apibaseurl/solutions/ID\<close> whose body has one part per
  non-empty file, in the order of the arguments, each with the field name \<open>files[]\<close>,
  the document's path as file name and the file's bytes as content.
\<close>

theorem pipeline_issues_one_patch:
  assumes cfgok: "validateUserConfig E cfg = None"
    and a: "args s = a"
    and san: "sanitizeArgs (FS E) (BinaryName E) s w = (None, w1)"
    and wsn: "WorkspaceNew (WS E) (cfg ''workspace'') = Inr wsp"
    and dir: "\<forall>p\<in>set (Heap w1 a). ExerciseDir (WS E) wsp p = Inr d"
    and ex: "ex = NewExerciseFromDir (WS E) d"
    and root: "root = ExerciseFilepath (WS E) ex"
    and mig: "MigrateLegacyMetadataFile (WS E) ex = Inr status"
    and md: "NewExerciseMetadata (WS E) root = Inr md"
    and slug: "Exercise md = Slug ex"
    and req: "IsRequester md"
    and id: "ID md \<noteq> []"
    and sizes: "\<forall>p\<in>set (Heap w1 a). Stat (FS E) p = Inr (info p) \<and>
                  \<not> word_sle maxFileSize (Size (info p))"
    and docs: "\<forall>p\<in>set (Heap w1 a). Size (info p) \<noteq> 0 \<longrightarrow>
                  NewDocument (WS E) root p = Inr (doc p) \<and>
                  Open (FS E) (Filepath (doc p)) = Inr \<lparr>Data = content p, ReadErr = None\<rparr>"
    and some: "\<exists>p\<in>set (Heap w1 a). Size (info p) \<noteq> 0"
    and cl: "NewClient (NET E) (cfg ''token'') (cfg ''apibaseurl'') = Inr c"
    and nr: "NewRequestErr (NET E) ''PATCH'' (cfg ''apibaseurl'' @ ''/solutions/'' @ ID md) = None"
  shows "Sent (snd (runSubmit E cfg flags a w)) =
         Sent w @
         [\<lparr>Method = ''PATCH'',
           Url = cfg ''apibaseurl'' @ ''/solutions/'' @ ID md,
           Body = map (\<lambda>p. \<lparr>FieldName = ''files[]'', FileName = Path (doc p), Content = content p\<rparr>)
                      (filter (\<lambda>p. Size (info p) \<noteq> 0) (Heap w1 a)),
           ContentType = FormDataContentType (NET E)\<rparr>]"
proof -
  let ?fs = "FS E" and ?ws = "WS E" and ?nt = "NET E"
  let ?ps = "Heap w1 a"
  let ?kept = "filter (\<lambda>p. Size (info p) \<noteq> 0) ?ps"
  let ?c0 = "\<lparr>usrCfg = cfg, verbose = flags, args = a,
               exercise = \<lparr>Root = [], ExTrack = [], Slug = []\<rparr>,
               metadata = None, documents = []\<rparr>"
  let ?c1 = "?c0\<lparr>exercise := ex\<rparr>"
  let ?c2 = "?c1\<lparr>metadata := Some md\<rparr>"
  define w2 where "w2 = (if flags then w1\<lparr>ErrOut := ErrOut w1 @ [MigrationStatus status]\<rparr> else w1)"
  let ?w2 = w2
  let ?w3 = "?w2\<lparr>ErrOut := ErrOut ?w2 @ map WarnEmptyFile (filter (\<lambda>p. Size (info p) = 0) ?ps)\<rparr>"
  let ?c3 = "?c2\<lparr>documents := map doc ?kept\<rparr>"
  have "sanitizeArgs ?fs (BinaryName E) ?c0 w = sanitizeArgs ?fs (BinaryName E) s w"
    by (rule sanitizeArgs_args_only) (simp add: a)
  with san have san0: "sanitizeArgs ?fs (BinaryName E) ?c0 w = (None, w1)" by simp
  then have sent1: "Sent w1 = Sent w"
    by (auto simp: sanitizeArgs_def dest: sanitizeFrom_frame)
  from some have ne: "?ps \<noteq> []" by auto
  have exr: "ctx_exercise ?ws (msgMissingMetadata E) ?c0 w1 = Inr ex"
    using wsn by (simp add: ctx_exercise_def exerciseLoop_agree_start [OF dir ne] ex)
  have migr: "migrateLegacyMetadata ?ws ?c1 w1 = (None, ?w2)"
    using mig by (simp add: migrateLegacyMetadata_def w2_def)
  have mdr: "ctx_metadata ?ws (BinaryName E) ?c1 = Inr md"
    using md slug req by (simp add: ctx_metadata_def root)
  have heap2: "Heap ?w2 a = ?ps" and sent2: "Sent ?w2 = Sent w1" by (simp_all add: w2_def)
  have all: "\<forall>p\<in>set (Heap ?w2 (args ?c2)). Stat ?fs p = Inr (info p) \<and>
        \<not> word_sle maxFileSize (Size (info p)) \<and>
        (Size (info p) \<noteq> 0 \<longrightarrow> NewDocument ?ws (ExerciseFilepath ?ws (exercise ?c2)) p = Inr (doc p))"
    using sizes docs by (simp add: root heap2)
  from some have kept_ne: "map doc ?kept \<noteq> []"
    by (simp add: filter_empty_conv)
  have docr: "ctx_documents ?fs ?ws ?c2 ?w2 = (Inr (map doc ?kept), ?w3)"
    using kept_ne documentsLoop_all_pass [OF all, of "[]"] by (simp add: ctx_documents_def heap2)
  have new: "newSubmitContext ?fs ?ws (BinaryName E) (msgMissingMetadata E) cfg flags a w = (Inr ?c3, ?w3)"
    unfolding newSubmitContext_def Let_def
    by (simp only: san0 exr migr mdr docr prod.case option.case sum.case)
  have opens: "\<forall>p\<in>set ?kept. Open ?fs (Filepath (doc p)) = Inr \<lparr>Data = content p, ReadErr = None\<rparr>"
    using docs by simp
  have wp: "writeParts ?fs (documents ?c3) [] =
      Inr (map (\<lambda>p. \<lparr>FieldName = ''files[]'', FileName = Path (doc p), Content = content p\<rparr>) ?kept)"
    using writeParts_all [OF opens, of "[]"] by simp
  have sent3: "Sent ?w3 = Sent w" using sent1 sent2 by simp
  have sd: "Sent (snd (submitDocuments ?fs ?nt ?c3 ?w3)) =
      Sent w @ [\<lparr>Method = ''PATCH'', Url = cfg ''apibaseurl'' @ ''/solutions/'' @ ID md,
                 Body = map (\<lambda>p. \<lparr>FieldName = ''files[]'', FileName = Path (doc p), Content = content p\<rparr>) ?kept,
                 ContentType = FormDataContentType ?nt\<rparr>]"
    using submitDocuments_sends [of ?c3 md ?fs _ ?nt c ?w3, OF _ id _ wp] kept_ne cl nr sent3
    by simp
  obtain r4 w4 where run: "submitDocuments ?fs ?nt ?c3 ?w3 = (r4, w4)"
    by (cases "submitDocuments ?fs ?nt ?c3 ?w3")
  with sd have sent4: "Sent w4 = Sent w @ [\<lparr>Method = ''PATCH'', Url = cfg ''apibaseurl'' @ ''/solutions/'' @ ID md,
                 Body = map (\<lambda>p. \<lparr>FieldName = ''files[]'', FileName = Path (doc p), Content = content p\<rparr>) ?kept,
                 ContentType = FormDataContentType ?nt\<rparr>]" by simp
  show ?thesis
    unfolding runSubmit_def
    by (cases r4) (simp_all only: cfgok new run sent4 prod.case option.case sum.case snd_conv printResult_frame)
qed

theorem pipeline_issues_one_patch_witness:
  "Sent (snd (runSubmit (exampleEnv exampleTree exampleMetadata okResponse)
            exampleCfg False 0 (exampleWorld [''a.txt'', ''b.txt'', ''c.txt'']))) =
     [\<lparr>Method = ''PATCH'', Url = ''http://api/solutions/abc123'',
       Body = [\<lparr>FieldName = ''files[]'', FileName = ''a.txt'', Content = ''package hi''\<rparr>,
               \<lparr>FieldName = ''files[]'', FileName = ''c.txt'', Content = ''// c''\<rparr>],
       ContentType = ''multipart/form-data; boundary=b0''\<rparr>]"
proof -
  let ?E = "exampleEnv exampleTree exampleMetadata okResponse"
  let ?w = "exampleWorld [''a.txt'', ''b.txt'', ''c.txt'']"
  let ?w1 = "exampleWorld [''/w/go/hi/a.txt'', ''/w/go/hi/b.txt'', ''/w/go/hi/c.txt'']"
  let ?ex = "\<lparr>Root = ''/w'', ExTrack = ''go'', Slug = ''hi''\<rparr>"
  have cfgok: "validateUserConfig ?E exampleCfg = None" by (simp add: exampleEnv_def)
  have a: "args exampleContext = 0" by (simp add: exampleContext_def)
  have san: "sanitizeArgs (FS ?E) (BinaryName ?E) exampleContext ?w = (None, ?w1)"
    by (simp add: example_defs sanitizeArgs_def)
  have wsn: "WorkspaceNew (WS ?E) (exampleCfg ''workspace'') = Inr \<lparr>Dir = ''/w''\<rparr>"
    by (simp add: example_defs)
  have dir: "\<forall>p\<in>set (Heap ?w1 0). ExerciseDir (WS ?E) \<lparr>Dir = ''/w''\<rparr> p = Inr ''/w/go/hi''"
    by (simp add: example_defs)
  have ex: "?ex = NewExerciseFromDir (WS ?E) ''/w/go/hi''" by (simp add: example_defs)
  have root: "''/w/go/hi'' = ExerciseFilepath (WS ?E) ?ex" by (simp add: example_defs)
  have mig: "MigrateLegacyMetadataFile (WS ?E) ?ex = Inr []" by (simp add: example_defs)
  have md: "NewExerciseMetadata (WS ?E) ''/w/go/hi'' = Inr exampleMetadata" by (simp add: exampleEnv_def exampleWS_def)
  have slug: "Exercise exampleMetadata = Slug ?ex" by (simp add: example_defs)
  have req: "IsRequester exampleMetadata" by (simp add: example_defs)
  have id: "ID exampleMetadata \<noteq> []" by (simp add: example_defs)
  have sizes: "\<forall>p\<in>set (Heap ?w1 0). Stat (FS ?E) p = Inr (exampleInfo p) \<and>
                  \<not> word_sle maxFileSize (Size (exampleInfo p))"
    by (simp add: example_defs maxFileSize_def word_sle_eq)
  have docs: "\<forall>p\<in>set (Heap ?w1 0). Size (exampleInfo p) \<noteq> 0 \<longrightarrow>
                  NewDocument (WS ?E) ''/w/go/hi'' p = Inr (exampleDoc p) \<and>
                  Open (FS ?E) (Filepath (exampleDoc p)) = Inr \<lparr>Data = exampleContent p, ReadErr = None\<rparr>"
    by (simp add: example_defs)
  have some: "\<exists>p\<in>set (Heap ?w1 0). Size (exampleInfo p) \<noteq> 0"
    by (simp add: example_defs)
  have cl: "NewClient (NET ?E) (exampleCfg ''token'') (exampleCfg ''apibaseurl'') = Inr \<lparr>Token = ''t0'', APIBaseURL = ''http://api''\<rparr>"
    by (simp add: example_defs)
  have nr: "NewRequestErr (NET ?E) ''PATCH'' (exampleCfg ''apibaseurl'' @ ''/solutions/'' @ ID exampleMetadata) = None"
    by (simp add: example_defs)
  note run = pipeline_issues_one_patch
    [OF cfgok a san wsn dir ex root mig md slug req id sizes docs some cl nr, where flags = False]
  show ?thesis unfolding run by (simp add: example_defs FormDataContentType_def)
qed

text \<open>
  The claim as it was first stated asks for a request for every list of resolvable
  paths under one exercise and below the size limit. A single empty file is such a list,
  and the run ends with "No files found to submit" before any request is made.
\<close>

theorem empty_file_sends_nothing:
  "sanitizeArgs (exampleFS exampleTree) ''exercism'' exampleContext (exampleWorld [''b.txt'']) =
     (None, exampleWorld [''/w/go/hi/b.txt'']) \<and>
   ExerciseDir (exampleWS exampleMetadata) \<lparr>Dir = ''/w''\<rparr> ''/w/go/hi/b.txt'' = Inr ''/w/go/hi'' \<and>
   Stat (exampleFS exampleTree) ''/w/go/hi/b.txt'' = Inr \<lparr>IsDir = False, Size = 0\<rparr> \<and>
   fst (runSubmit (exampleEnv exampleTree exampleMetadata okResponse)
          exampleCfg False 0 (exampleWorld [''b.txt''])) = Some NoFilesToSubmitError \<and>
   Sent (snd (runSubmit (exampleEnv exampleTree exampleMetadata okResponse)
          exampleCfg False 0 (exampleWorld [''b.txt'']))) = []"
  by (simp add: example_defs model_defs)

text \<open>
  C2. A 400 response whose body decodes to the message \<open>100% wrong\<close>: the error the
  command returns does not carry that message character for character, because the
  message is used as a format string.
\<close>

theorem api_error_message_is_formatted:
  "fst (runSubmit (exampleEnv exampleTree exampleMetadata badRequestResponse)
          exampleCfg False 0 (exampleWorld [''a.txt''])) =
     Some (ApiError ''100%!w(MISSING)rong'')"
  by (simp add: example_defs model_defs Errorf_def directive_def argNumber_def parsenum_def isFlag_def isDigit_def runeLen_def)

text \<open>
  C3 (as amended). When the server's response has a status other than 400 and its body
  reads to the end without an error, response handling returns no error whatever the
  JSON decoder would say about the body, and once the request has been handed to the
  client both \<open>submitDocuments\<close> and the whole run return success.
\<close>

theorem not_400_and_drained_is_success:
  assumes srv: "\<forall>c req. Do (NET E) c req = Inr resp"
    and st: "StatusCode resp \<noteq> 400"
    and rd: "ReadErr (RespBody resp) = None"
  shows "(\<forall>dec. handleResponse ((NET E)\<lparr>Decode := dec\<rparr>) resp = None) \<and>
         (Sent (snd (submitDocuments (FS E) (NET E) s w)) \<noteq> Sent w \<longrightarrow>
            fst (submitDocuments (FS E) (NET E) s w) = None) \<and>
         (Sent (snd (runSubmit E cfg flags a w0)) \<noteq> Sent w0 \<longrightarrow>
            fst (runSubmit E cfg flags a w0) = None)"
proof -
  from st rd have h: "\<And>nt. handleResponse nt resp = None"
    by (simp add: handleResponse_def StatusBadRequest_def)
  have sd: "\<And>ctx w1. Sent (snd (submitDocuments (FS E) (NET E) ctx w1)) \<noteq> Sent w1 \<Longrightarrow>
      fst (submitDocuments (FS E) (NET E) ctx w1) = None"
    using submitDocuments_result [OF _ srv] h by simp
  have "Sent (snd (runSubmit E cfg flags a w0)) \<noteq> Sent w0 \<Longrightarrow> fst (runSubmit E cfg flags a w0) = None"
  proof -
    assume "Sent (snd (runSubmit E cfg flags a w0)) \<noteq> Sent w0"
    from runSubmit_sent [OF this] obtain ctx w1 where
      "Sent (snd (submitDocuments (FS E) (NET E) ctx w1)) \<noteq> Sent w1"
      "fst (runSubmit E cfg flags a w0) = fst (submitDocuments (FS E) (NET E) ctx w1)" by blast
    with sd show ?thesis by simp
  qed
  with h sd show ?thesis by simp
qed

theorem not_400_and_drained_is_success_witness:
  "StatusCode okResponse \<noteq> 400 \<and> ReadErr (RespBody okResponse) = None \<and>
   length (Sent (snd (runSubmit (exampleEnv exampleTree exampleMetadata okResponse)
          exampleCfg False 0 (exampleWorld [''a.txt''])))) = 1 \<and>
   fst (runSubmit (exampleEnv exampleTree exampleMetadata okResponse)
          exampleCfg False 0 (exampleWorld [''a.txt''])) = None"
proof -
  let ?E = "exampleEnv exampleTree exampleMetadata okResponse"
  have srv: "\<forall>c req. Do (NET ?E) c req = Inr okResponse"
    by (simp add: exampleEnv_def exampleNet_def)
  have st: "StatusCode okResponse \<noteq> 400" by (simp add: okResponse_def)
  have rd: "ReadErr (RespBody okResponse) = None" by (simp add: okResponse_def)
  have sent: "length (Sent (snd (runSubmit ?E exampleCfg False 0 (exampleWorld [''a.txt''])))) = 1"
    by (simp add: example_defs model_defs)
  then have ne: "Sent (snd (runSubmit ?E exampleCfg False 0 (exampleWorld [''a.txt'']))) \<noteq> Sent (exampleWorld [''a.txt''])"
    by (auto simp: exampleWorld_def)
  from not_400_and_drained_is_success [OF srv st rd, where cfg = exampleCfg and flags = False and a = 0
      and ?w0.0 = "exampleWorld [''a.txt'']"] ne
  have "fst (runSubmit ?E exampleCfg False 0 (exampleWorld [''a.txt''])) = None" by blast
  with st rd sent show ?thesis by blast
qed

text \<open>
  Without the condition on the body the claim fails: a response with status 500 whose
  body cannot be read to its end makes the run return that read error.
\<close>

theorem status_500_failed_drain_is_an_error:
  "StatusCode failedDrainResponse \<noteq> 400 \<and>
   fst (runSubmit (exampleEnv exampleTree exampleMetadata failedDrainResponse)
          exampleCfg False 0 (exampleWorld [''a.txt''])) = Some (Propagated ioerr)"
  by (simp add: example_defs model_defs)

text \<open>
  C4. Every argument has a size (\<open>os.Stat\<close> answers) and can be made a document. If
  some file has 65535 bytes or more, document collection returns no list: it fails with
  \<open>FileTooLargeError\<close> naming such a file and the limit 65535, and the file named is the
  first one of that size in the list. If no file is that large, every file of exactly
  65534 bytes has its document in the list that is returned.
\<close>

theorem documents_size_limit:
  assumes env: "\<forall>p\<in>set (Heap w (args s)). Stat fs p = Inr (info p) \<and>
                  NewDocument ws (ExerciseFilepath ws (exercise s)) p = Inr (doc p)"
  shows "((\<exists>file\<in>set (Heap w (args s)). 65535 \<le> sint (Size (info file))) \<longrightarrow>
            (\<exists>file\<in>set (Heap w (args s)). 65535 \<le> sint (Size (info file)) \<and>
               fst (ctx_documents fs ws s w) = Inl (FileTooLargeError file 65535))) \<and>
         (\<forall>pre file post. Heap w (args s) = pre @ file # post \<and>
             (\<forall>p\<in>set pre. sint (Size (info p)) < 65535) \<and> 65535 \<le> sint (Size (info file)) \<longrightarrow>
             fst (ctx_documents fs ws s w) = Inl (FileTooLargeError file 65535)) \<and>
         ((\<forall>p\<in>set (Heap w (args s)). sint (Size (info p)) < 65535) \<longrightarrow>
            (\<forall>file\<in>set (Heap w (args s)). Size (info file) = 65534 \<longrightarrow>
               (\<exists>docs. fst (ctx_documents fs ws s w) = Inr docs \<and> doc file \<in> set docs)))"
proof -
  let ?ps = "Heap w (args s)"
  let ?root = "ExerciseFilepath ws (exercise s)"
  have first: "fst (ctx_documents fs ws s w) = Inl (FileTooLargeError f 65535)"
    if split: "?ps = pre @ f # post"
      and pre: "\<forall>p\<in>set pre. sint (Size (info p)) < 65535"
      and big: "65535 \<le> sint (Size (info f))"
    for pre f post
  proof -
    from env split pre
    have pass: "\<forall>p\<in>set pre. Stat fs p = Inr (info p) \<and> \<not> word_sle maxFileSize (Size (info p)) \<and>
             (Size (info p) \<noteq> 0 \<longrightarrow> NewDocument ws ?root p = Inr (doc p))"
      by (auto simp: maxFileSize_def word_sle_eq)
    from env split have st: "Stat fs f = Inr (info f)" by simp
    from big have "word_sle maxFileSize (Size (info f))"
      by (simp add: maxFileSize_def word_sle_eq)
    with st show ?thesis
      by (simp add: ctx_documents_def split documentsLoop_pass [OF pass] maxFileSize_def)
  qed
  have some: "\<exists>f\<in>set ?ps. 65535 \<le> sint (Size (info f)) \<and>
               fst (ctx_documents fs ws s w) = Inl (FileTooLargeError f 65535)"
    if ex: "\<exists>f\<in>set ?ps. 65535 \<le> sint (Size (info f))"
  proof -
    from ex obtain pre f post where split: "?ps = pre @ f # post"
      and big: "65535 \<le> sint (Size (info f))"
      and pre: "\<forall>p\<in>set pre. \<not> 65535 \<le> sint (Size (info p))"
      using split_list_first_prop [of ?ps "\<lambda>p. 65535 \<le> sint (Size (info p))"] by blast
    from pre have "\<forall>p\<in>set pre. sint (Size (info p)) < 65535" by auto
    from first [OF split this big] split big show ?thesis by auto
  qed
  have kept: "\<exists>docs. fst (ctx_documents fs ws s w) = Inr docs \<and> doc f \<in> set docs"
    if small: "\<forall>p\<in>set ?ps. sint (Size (info p)) < 65535"
      and mem: "f \<in> set ?ps" and sz: "Size (info f) = 65534"
    for f
  proof -
    from env small
    have all: "\<forall>p\<in>set ?ps. Stat fs p = Inr (info p) \<and> \<not> word_sle maxFileSize (Size (info p)) \<and>
             (Size (info p) \<noteq> 0 \<longrightarrow> NewDocument ws ?root p = Inr (doc p))"
      by (auto simp: maxFileSize_def word_sle_eq)
    let ?docs = "map doc (filter (\<lambda>p. Size (info p) \<noteq> 0) ?ps)"
    from sz have "Size (info f) \<noteq> 0" by simp
    with mem have in_docs: "doc f \<in> set ?docs" by simp
    then have "0 < length ?docs" by (rule length_pos_if_in_set)
    then have ne: "?docs \<noteq> []" by (metis length_greater_0_conv)
    have "fst (ctx_documents fs ws s w) = Inr ?docs"
      using ne by (simp add: ctx_documents_def documentsLoop_all_pass [OF all])
    with in_docs show ?thesis by blast
  qed
  from first some kept show ?thesis by blast
qed

theorem documents_size_limit_witness:
  "fst (ctx_documents (exampleFS exampleTree) (exampleWS exampleMetadata) exampleContext
          (exampleWorld [''/w/go/hi/a.txt'', ''/w/go/hi/big'', ''/w/go/hi/max''])) =
     Inl (FileTooLargeError ''/w/go/hi/big'' 65535) \<and>
   (\<exists>docs. fst (ctx_documents (exampleFS exampleTree) (exampleWS exampleMetadata) exampleContext
          (exampleWorld [''/w/go/hi/a.txt'', ''/w/go/hi/max'', ''/w/go/hi/b.txt''])) = Inr docs \<and>
      exampleDoc ''/w/go/hi/max'' \<in> set docs)"
proof -
  let ?fs = "exampleFS exampleTree" and ?ws = "exampleWS exampleMetadata"
  let ?w1 = "exampleWorld [''/w/go/hi/a.txt'', ''/w/go/hi/big'', ''/w/go/hi/max'']"
  let ?w2 = "exampleWorld [''/w/go/hi/a.txt'', ''/w/go/hi/max'', ''/w/go/hi/b.txt'']"
  have env1: "\<forall>p\<in>set (Heap ?w1 (args exampleContext)). Stat ?fs p = Inr (exampleInfo p) \<and>
      NewDocument ?ws (ExerciseFilepath ?ws (exercise exampleContext)) p = Inr (exampleDoc p)"
    by (simp add: example_defs)
  have env2: "\<forall>p\<in>set (Heap ?w2 (args exampleContext)). Stat ?fs p = Inr (exampleInfo p) \<and>
      NewDocument ?ws (ExerciseFilepath ?ws (exercise exampleContext)) p = Inr (exampleDoc p)"
    by (simp add: example_defs)
  have split: "Heap ?w1 (args exampleContext) = [''/w/go/hi/a.txt''] @ ''/w/go/hi/big'' # [''/w/go/hi/max'']"
    by (simp add: example_defs)
  have pre: "\<forall>p\<in>set [''/w/go/hi/a.txt'']. sint (Size (exampleInfo p)) < 65535"
    by (simp add: example_defs)
  have big: "65535 \<le> sint (Size (exampleInfo ''/w/go/hi/big''))"
    by (simp add: example_defs)
  have small: "\<forall>p\<in>set (Heap ?w2 (args exampleContext)). sint (Size (exampleInfo p)) < 65535"
    by (simp add: example_defs)
  have mem: "''/w/go/hi/max'' \<in> set (Heap ?w2 (args exampleContext))"
    by (simp add: example_defs)
  have sz: "Size (exampleInfo ''/w/go/hi/max'') = 65534"
    by (simp add: example_defs)
  from documents_size_limit [OF env1] split pre big
  have 1: "fst (ctx_documents ?fs ?ws exampleContext ?w1) = Inl (FileTooLargeError ''/w/go/hi/big'' 65535)"
    by blast
  from documents_size_limit [OF env2] small mem sz
  have 2: "\<exists>docs. fst (ctx_documents ?fs ?ws exampleContext ?w2) = Inr docs \<and>
             exampleDoc ''/w/go/hi/max'' \<in> set docs"
    by blast
  from 1 2 show ?thesis by blast
qed



text \<open>
  C6 (as amended). When the workspace opens and the resolver answers every path of the
  list with a directory (never the empty path): if two paths of the list, wherever they
  stand, get different answers, exercise matching fails with \<open>MixedSolutionError\<close>;
  and when it succeeds on a list that is not empty, all paths have the same directory and
  the exercise is the one built from that directory.
\<close>

theorem exercise_rejects_mixed_solutions:
  assumes wsn: "WorkspaceNew ws (usrCfg s ''workspace'') = Inr wsp"
    and res: "\<forall>p\<in>set (Heap w (args s)). \<exists>d. ExerciseDir ws wsp p = Inr d \<and> d \<noteq> []"
  shows "((\<exists>p\<in>set (Heap w (args s)). \<exists>q\<in>set (Heap w (args s)).
             ExerciseDir ws wsp p \<noteq> ExerciseDir ws wsp q)
          \<longrightarrow> ctx_exercise ws mm s w = Inl MixedSolutionError) \<and>
         (\<forall>ex. ctx_exercise ws mm s w = Inr ex \<longrightarrow> Heap w (args s) \<noteq> [] \<longrightarrow>
             (\<exists>d. (\<forall>p\<in>set (Heap w (args s)). ExerciseDir ws wsp p = Inr d) \<and>
                  ex = NewExerciseFromDir ws d))"
proof (cases "Heap w (args s)")
  case Nil
  then show ?thesis by simp
next
  case (Cons p ps)
  from res Cons obtain d where d: "ExerciseDir ws wsp p = Inr d" "d \<noteq> []" by auto
  from res Cons have rest: "\<forall>q\<in>set ps. \<exists>d. ExerciseDir ws wsp q = Inr d" by auto
  have loop: "exerciseLoop ws mm wsp [] (Heap w (args s)) =
     (if \<forall>q\<in>set ps. ExerciseDir ws wsp q = Inr d then Inr d else Inl MixedSolutionError)"
    unfolding Cons by (rule exerciseLoop_first [OF d rest])
  show ?thesis
  proof (cases "\<forall>q\<in>set ps. ExerciseDir ws wsp q = Inr d")
    case True
    with d have all: "\<forall>q\<in>set (Heap w (args s)). ExerciseDir ws wsp q = Inr d"
      by (simp add: Cons)
    from loop True wsn have "ctx_exercise ws mm s w = Inr (NewExerciseFromDir ws d)"
      by (simp add: ctx_exercise_def)
    with all show ?thesis by auto
  next
    case False
    with loop wsn have "ctx_exercise ws mm s w = Inl MixedSolutionError"
      by (simp add: ctx_exercise_def)
    then show ?thesis by simp
  qed
qed

theorem exercise_rejects_mixed_solutions_witness:
  "ctx_exercise (exampleWS exampleMetadata) ''metadata missing'' exampleContext
      (exampleWorld [''/w/go/hi/a.txt'', ''/w/go/yo/d.txt'']) = Inl MixedSolutionError \<and>
   ctx_exercise (exampleWS exampleMetadata) ''metadata missing'' exampleContext
      (exampleWorld [''/w/go/yo/d.txt'', ''/w/go/hi/a.txt'']) = Inl MixedSolutionError \<and>
   ctx_exercise (exampleWS exampleMetadata) ''metadata missing'' exampleContext
      (exampleWorld [''/w/go/hi/a.txt'', ''/w/go/hi/c.txt'']) =
        Inr (NewExerciseFromDir (exampleWS exampleMetadata) ''/w/go/hi'')"
  using
    exercise_rejects_mixed_solutions [of "exampleWS exampleMetadata" exampleContext "\<lparr>Dir = ''/w''\<rparr>"
      "exampleWorld [''/w/go/hi/a.txt'', ''/w/go/yo/d.txt'']" "''metadata missing''"]
    exercise_rejects_mixed_solutions [of "exampleWS exampleMetadata" exampleContext "\<lparr>Dir = ''/w''\<rparr>"
      "exampleWorld [''/w/go/yo/d.txt'', ''/w/go/hi/a.txt'']" "''metadata missing''"]
    exercise_rejects_mixed_solutions [of "exampleWS exampleMetadata" exampleContext "\<lparr>Dir = ''/w''\<rparr>"
      "exampleWorld [''/w/go/hi/a.txt'', ''/w/go/hi/c.txt'']" "''metadata missing''"]
  by (simp add: example_defs model_defs)

text \<open>
  The claim as it was first stated asks only that two paths of the list resolve to
  different directories. The loop returns at the first path it cannot accept: with a
  third path that the resolver refuses, the list fails with the resolver's error when
  that path comes before the second directory is seen, and with \<open>MixedSolutionError\<close>
  when it comes after. The order of the paths decides.
\<close>

theorem unresolved_path_hides_mixed_solutions:
  "ExerciseDir (exampleWS exampleMetadata) \<lparr>Dir = ''/w''\<rparr> ''/w/go/hi/a.txt'' = Inr ''/w/go/hi'' \<and>
   ExerciseDir (exampleWS exampleMetadata) \<lparr>Dir = ''/w''\<rparr> ''/w/go/yo/d.txt'' = Inr ''/w/go/yo'' \<and>
   ctx_exercise (exampleWS exampleMetadata) ''metadata missing'' exampleContext
      (exampleWorld [''/w/go/hi/a.txt'', ''/tmp/x'', ''/w/go/yo/d.txt'']) =
     Inl (Propagated \<lparr>ErrText = ''not in workspace'', IsNotExist = False,
                         IsMissingMetadata = False\<rparr>) \<and>
   ctx_exercise (exampleWS exampleMetadata) ''metadata missing'' exampleContext
      (exampleWorld [''/w/go/hi/a.txt'', ''/w/go/yo/d.txt'', ''/tmp/x'']) =
     Inl MixedSolutionError"
  by (simp add: example_defs model_defs)



text \<open>
  C8. The argument \<open>link\<close> is a symbolic link to the directory \<open>/w/go/hi/sub\<close>.
  \<open>sanitizeArgs\<close> asks \<open>Lstat\<close>, which describes the link and not the directory, so it
  returns no error and leaves the directory's path in the argument slice.
\<close>

theorem symlinked_directory_passes_sanitizeArgs:
  "sanitizeArgs (exampleFS exampleTree) ''exercism'' exampleContext (exampleWorld [''link'']) =
     (None, exampleWorld [''/w/go/hi/sub'']) \<and>
   Stat (exampleFS exampleTree) ''/w/go/hi/link'' = Inr \<lparr>IsDir = True, Size = 4096\<rparr> \<and>
   Lstat (exampleFS exampleTree) ''/w/go/hi/sub'' = Inr \<lparr>IsDir = True, Size = 4096\<rparr>"
  by (simp add: example_defs model_defs)

text \<open>
  C9. \<open>a\<close> is the slice the caller passed to \<open>runSubmit\<close>, which the context shares.
  When \<open>sanitizeArgs\<close> returns no error, the array behind \<open>a\<close> has its old length and
  every element is what \<open>EvalSymlinks\<close> returned for the absolute path of the old
  element; and this is the array the caller finds when \<open>runSubmit\<close> has returned.
\<close>

theorem sanitizeArgs_overwrites_caller_slice:
  assumes a: "args s = a"
    and san: "sanitizeArgs (FS E) (BinaryName E) s w = (None, w1)"
    and cfg: "validateUserConfig E cfg = None"
  shows "length (Heap w1 a) = length (Heap w a) \<and>
         (\<forall>i<length (Heap w a). \<exists>arg.
             Abs (FS E) (Heap w a ! i) = Inr arg \<and>
             EvalSymlinks (FS E) arg = Inr (Heap w1 a ! i)) \<and>
         Heap (snd (runSubmit E cfg flags a w)) a = Heap w1 a"
proof -
  from san a have run: "sanitizeFrom (FS E) (BinaryName E) a [0..<length (Heap w a)] w = (None, w1)"
    by (simp add: sanitizeArgs_def)
  from sanitizeFrom_frame [OF run] have len: "length (Heap w1 a) = length (Heap w a)" by simp
  have "\<forall>i\<in>set [0..<length (Heap w a)]. \<exists>arg info.
          Abs (FS E) (Heap w a ! i) = Inr arg \<and> Lstat (FS E) arg = Inr info \<and> \<not> IsDir info \<and>
          EvalSymlinks (FS E) arg = Inr (Heap w1 a ! i)"
    using sanitizeFrom_success [OF run] by simp
  then have each: "\<forall>i<length (Heap w a). \<exists>arg.
             Abs (FS E) (Heap w a ! i) = Inr arg \<and> EvalSymlinks (FS E) arg = Inr (Heap w1 a ! i)"
    by auto
  from runSubmit_after_sanitize [OF cfg san a]
  have "Heap (snd (runSubmit E cfg flags a w)) a = Heap w1 a" by simp
  with len each show ?thesis by simp
qed

theorem sanitizeArgs_overwrites_caller_slice_witness:
  "sanitizeArgs (FS (exampleEnv exampleTree exampleMetadata okResponse)) ''exercism''
      exampleContext (exampleWorld [''a.txt'', ''/w/go/hi/b.txt'']) =
     (None, exampleWorld [''/w/go/hi/a.txt'', ''/w/go/hi/b.txt'']) \<and>
   Heap (snd (runSubmit (exampleEnv exampleTree exampleMetadata okResponse)
                exampleCfg False 0 (exampleWorld [''a.txt'', ''/w/go/hi/b.txt'']))) 0 =
     [''/w/go/hi/a.txt'', ''/w/go/hi/b.txt'']"
proof -
  let ?E = "exampleEnv exampleTree exampleMetadata okResponse"
  have a: "args exampleContext = 0" by (simp add: exampleContext_def)
  have san: "sanitizeArgs (FS ?E) (BinaryName ?E) exampleContext (exampleWorld [''a.txt'', ''/w/go/hi/b.txt'']) =
     (None, exampleWorld [''/w/go/hi/a.txt'', ''/w/go/hi/b.txt''])"
    by (simp add: example_defs sanitizeArgs_def)
  have cfg: "validateUserConfig ?E exampleCfg = None" by (simp add: exampleEnv_def)
  from sanitizeArgs_overwrites_caller_slice [OF a san cfg, of False] san
  show ?thesis by (simp add: exampleEnv_def exampleWorld_def)
qed

text \<open>
  C10. When the server's response has a status other than 400 and reading its body
  fails with \<open>err\<close>: response handling returns \<open>err\<close>; \<open>submitDocuments\<close> returns an
  error, and it is \<open>err\<close> whenever the request was handed to the client; and the whole
  run returns an error.
\<close>

theorem drain_failure_is_an_error:
  assumes srv: "\<forall>c req. Do (NET E) c req = Inr resp"
    and st: "StatusCode resp \<noteq> 400"
    and rd: "ReadErr (RespBody resp) = Some err"
  shows "handleResponse (NET E) resp = Some (Propagated err) \<and>
         (\<exists>e. fst (submitDocuments (FS E) (NET E) s w) = Some e) \<and>
         (Sent (snd (submitDocuments (FS E) (NET E) s w)) \<noteq> Sent w \<longrightarrow>
            fst (submitDocuments (FS E) (NET E) s w) = Some (Propagated err)) \<and>
         (\<exists>e. fst (runSubmit E cfg flags a w0) = Some e)"
proof -
  from st rd have h: "handleResponse (NET E) resp = Some (Propagated err)"
    by (simp add: handleResponse_def StatusBadRequest_def)
  have never: "\<And>ctx w1. fst (submitDocuments (FS E) (NET E) ctx w1) \<noteq> None"
    using submitDocuments_drain_error [OF srv h] by fastforce
  have run: "\<exists>e. fst (runSubmit E cfg flags a w0) = Some e"
  proof (cases "fst (runSubmit E cfg flags a w0)")
    case None
    from runSubmit_result [OF this] never show ?thesis by blast
  next
    case (Some e)
    then show ?thesis by blast
  qed
  from h submitDocuments_drain_error [OF srv h, of "FS E" s w]
    submitDocuments_result [of "FS E" "NET E" s w resp] srv run
  show ?thesis by auto
qed

theorem drain_failure_is_an_error_witness:
  "StatusCode failedDrainResponse \<noteq> 400 \<and>
   ReadErr (RespBody failedDrainResponse) = Some ioerr \<and>
   fst (submitDocuments (exampleFS exampleTree) (exampleNet failedDrainResponse)
          readyContext (exampleWorld [])) = Some (Propagated ioerr) \<and>
   (\<exists>e. fst (runSubmit (exampleEnv exampleTree exampleMetadata failedDrainResponse)
          exampleCfg False 0 (exampleWorld [''a.txt''])) = Some e)"
proof -
  let ?E = "exampleEnv exampleTree exampleMetadata failedDrainResponse"
  have srv: "\<forall>c req. Do (NET ?E) c req = Inr failedDrainResponse"
    by (simp add: exampleEnv_def exampleNet_def)
  have st: "StatusCode failedDrainResponse \<noteq> 400" by (simp add: failedDrainResponse_def)
  have rd: "ReadErr (RespBody failedDrainResponse) = Some ioerr" by (simp add: failedDrainResponse_def)
  have sent: "Sent (snd (submitDocuments (FS ?E) (NET ?E) readyContext (exampleWorld []))) \<noteq> Sent (exampleWorld [])"
    by (simp add: example_defs model_defs)
  from drain_failure_is_an_error [OF srv st rd, where s = readyContext and w = "exampleWorld []"
      and cfg = exampleCfg and flags = False and a = 0 and ?w0.0 = "exampleWorld [''a.txt'']"] sent st rd
  show ?thesis by (simp add: exampleEnv_def)
qed

end
